theory Spec2Isabelle
  imports Main
begin

section \<open>Python values used by the endpoint configuration cell\<close>

text \<open>
  The notebook \<^verbatim>\<open>sagemaker/29_deploy_llms_on_inferentia2/sagemaker-notebook.ipynb\<close> builds the
  environment of the TGI Neuronx endpoint in one cell:
  \<^verbatim>\<open>
  batch_size = 4
  sequence_length = 2048
  config = {
    'HF_MODEL_ID': "aws-neuron/zephyr-7b-seqlen-2048-bs-4-cores-2",
    'MAX_CONCURRENT_REQUESTS': json.dumps(batch_size),
    'MAX_INPUT_LENGTH': json.dumps(1512),
    'MAX_TOTAL_TOKENS': json.dumps(sequence_length),
    'MAX_BATCH_PREFILL_TOKENS': json.dumps(int(sequence_length*batch_size / 2)),
    'MAX_BATCH_TOTAL_TOKENS': json.dumps(sequence_length*batch_size),
  }
  \<close>
  Python integers are unbounded (\<^typ>\<open>int\<close>). The operator \<^verbatim>\<open>/\<close> on two integers is
  true division: it returns a binary64 float, the one nearest to the exact quotient,
  ties going to the even significand; it raises \<^verbatim>\<open>ZeroDivisionError\<close> for a zero divisor and
  \<^verbatim>\<open>OverflowError\<close> when the rounded quotient does not fit a float. \<^verbatim>\<open>int\<close> of a float
  drops the fractional part.
\<close>

datatype py_error = ZeroDivisionError | OverflowError

text \<open>
  A finite float is a dyadic rational: \<open>Float m e\<close> stands for \<open>m * 2 ^ e\<close>, with
  \<open>\<bar>m\<bar> \<le> 2 ^ 53\<close>. The sign of a zero is not kept (\<^verbatim>\<open>int\<close> does not see it).
\<close>

datatype py_float = Float int int

text \<open>\<^verbatim>\<open>int.bit_length\<close>: the number of binary digits of a natural number.\<close>

fun bit_length :: "nat \<Rightarrow> nat" where
  "bit_length n = (if n = 0 then 0 else Suc (bit_length (n div 2)))"

declare bit_length.simps [simp del]

text \<open>The integer nearest to \<open>n / d\<close>, a tie going to the even neighbour.\<close>

definition round_half_even :: "nat \<Rightarrow> nat \<Rightarrow> nat" where
  "round_half_even n d =
     (let m = n div d; r = n mod d
      in if d < 2 * r \<or> (2 * r = d \<and> odd m) then m + 1 else m)"

text \<open>\<open>\<lfloor>log\<^sub>2 (p / q)\<rfloor>\<close> for positive \<open>p\<close> and \<open>q\<close>, from the bit lengths.\<close>

definition binary_exponent :: "nat \<Rightarrow> nat \<Rightarrow> int" where
  "binary_exponent p q =
     (let d = int (bit_length p) - int (bit_length q)
      in if q * 2 ^ nat d \<le> p * 2 ^ nat (- d) then d else d - 1)"

text \<open>
  True division of integers. The quotient \<open>p / q\<close> of the magnitudes has binary exponent
  \<open>e\<close>; a binary64 float keeps 53 significant bits, so its last place is worth
  \<open>2 ^ t\<close> with \<open>t = max e (-1022) - 52\<close> (the \<open>max\<close> is the subnormal range). The
  significand is \<open>p / q / 2 ^ t\<close> rounded to the nearest integer, and the result
  overflows when it reaches \<open>2 ^ 1024\<close>.
\<close>

definition py_truediv :: "int \<Rightarrow> int \<Rightarrow> py_error + py_float" where
  "py_truediv a b =
     (if b = 0 then Inl ZeroDivisionError
      else if a = 0 then Inr (Float 0 0)
      else
        let p = nat \<bar>a\<bar>; q = nat \<bar>b\<bar>;
            t = max (binary_exponent p q) (- 1022) - 52;
            m = round_half_even (p * 2 ^ nat (- t)) (q * 2 ^ nat t)
        in if 0 \<le> t \<and> 2 ^ 1024 \<le> m * 2 ^ nat t then Inl OverflowError
           else Inr (Float (sgn a * sgn b * int m) t))"

text \<open>\<^verbatim>\<open>int(x)\<close> for a finite float \<open>x\<close>: truncation towards zero.\<close>

fun py_int :: "py_float \<Rightarrow> int" where
  "py_int (Float m e) =
     (if 0 \<le> e then m * 2 ^ nat e else sgn m * (\<bar>m\<bar> div 2 ^ nat (- e)))"


section \<open>Serialisation: \<^verbatim>\<open>json.dumps\<close> of an integer\<close>

text \<open>
  \<^verbatim>\<open>json.dumps(n)\<close> of a Python integer is its decimal representation: the digits of the
  magnitude, most significant first, with no leading zero, after a minus sign when
  \<open>n\<close> is negative. (Recent interpreters refuse, in their default configuration, to
  convert an integer of more than 4300 digits; that limit is a setting of the
  interpreter, not of the notebook, and is left out. Every statement below that says a
  configuration is built is about arguments below \<open>2 ^ 1024\<close>, far inside it.)
\<close>

definition digit_char :: "nat \<Rightarrow> char" where
  "digit_char d = ''0123456789'' ! d"

fun decimal :: "nat \<Rightarrow> string" where
  "decimal n =
     (if n < 10 then [digit_char n] else decimal (n div 10) @ [digit_char (n mod 10)])"

declare decimal.simps [simp del]

definition json_dumps :: "int \<Rightarrow> string" where
  "json_dumps n = (if n < 0 then CHR ''-'' # decimal (nat (- n)) else decimal (nat n))"

text \<open>
  Reading a value back, as the consumer of the environment does: a string of decimal
  digits, with an optional leading minus sign, denotes an integer; anything else denotes
  none.
\<close>

definition is_digit :: "char \<Rightarrow> bool" where
  "is_digit c = (48 \<le> (of_char c :: nat) \<and> (of_char c :: nat) \<le> 57)"

fun decimal_value :: "nat \<Rightarrow> string \<Rightarrow> nat option" where
  "decimal_value acc [] = Some acc"
| "decimal_value acc (c # cs) =
     (if is_digit c then decimal_value (10 * acc + (of_char c - 48)) cs else None)"

definition parse_int :: "string \<Rightarrow> int option" where
  "parse_int v =
     (case v of
        [] \<Rightarrow> None
      | c # cs \<Rightarrow>
          if c = CHR ''-''
          then (if cs = [] then None else map_option (\<lambda>n. - int n) (decimal_value 0 cs))
          else map_option int (decimal_value 0 v))"

section \<open>The endpoint configuration\<close>

text \<open>
  \<^verbatim>\<open>int(sequence_length*batch_size / 2)\<close>: the product is exact, the division is true
  division, the conversion truncates.
\<close>

definition prefill_tokens :: "int \<Rightarrow> int \<Rightarrow> py_error + int" where
  "prefill_tokens b s =
     (case py_truediv (s * b) 2 of Inl e \<Rightarrow> Inl e | Inr x \<Rightarrow> Inr (py_int x))"

text \<open>
  The dictionary \<^verbatim>\<open>config\<close>, as a function of the two variables it reads,
  \<^verbatim>\<open>batch_size\<close> (\<open>b\<close>) and \<open>sequence_length\<close> (\<open>s\<close>). A Python dictionary keeps
  its entries in insertion order: an association list. The only entry whose evaluation
  can raise is \<^verbatim>\<open>MAX_BATCH_PREFILL_TOKENS\<close>; the entries before it have no effect, so the
  exception is the whole outcome.
\<close>

definition config :: "int \<Rightarrow> int \<Rightarrow> py_error + (string \<times> string) list" where
  "config b s =
     (case prefill_tokens b s of
        Inl e \<Rightarrow> Inl e
      | Inr p \<Rightarrow>
          Inr [(''HF_MODEL_ID'', ''aws-neuron/zephyr-7b-seqlen-2048-bs-4-cores-2''),
               (''MAX_CONCURRENT_REQUESTS'', json_dumps b),
               (''MAX_INPUT_LENGTH'', json_dumps 1512),
               (''MAX_TOTAL_TOKENS'', json_dumps s),
               (''MAX_BATCH_PREFILL_TOKENS'', json_dumps p),
               (''MAX_BATCH_TOTAL_TOKENS'', json_dumps (s * b))])"

text \<open>The integer an environment holds under a key, if the key is there and decimal.\<close>

definition env_int :: "(string \<times> string) list \<Rightarrow> string \<Rightarrow> int option" where
  "env_int env k = (case map_of env k of None \<Rightarrow> None | Some v \<Rightarrow> parse_int v)"

text \<open>
  The same for the configuration built from \<open>b\<close> and \<open>s\<close>: \<open>None\<close> also when the
  construction raised.
\<close>

definition config_int :: "int \<Rightarrow> int \<Rightarrow> string \<Rightarrow> int option" where
  "config_int b s k = (case config b s of Inl e \<Rightarrow> None | Inr env \<Rightarrow> env_int env k)"

text \<open>The dictionary the notebook itself builds, from its literals 4 and 2048.\<close>

definition notebook_config :: "(string \<times> string) list" where
  "notebook_config =
     [(''HF_MODEL_ID'', ''aws-neuron/zephyr-7b-seqlen-2048-bs-4-cores-2''),
      (''MAX_CONCURRENT_REQUESTS'', ''4''),
      (''MAX_INPUT_LENGTH'', ''1512''),
      (''MAX_TOTAL_TOKENS'', ''2048''),
      (''MAX_BATCH_PREFILL_TOKENS'', ''4096''),
      (''MAX_BATCH_TOTAL_TOKENS'', ''8192'')]"

section \<open>Bit lengths\<close>

lemma bit_length_0: "bit_length 0 = 0"
  by (simp add: bit_length.simps)

lemma bit_length_pos: "0 < n \<Longrightarrow> bit_length n = Suc (bit_length (n div 2))"
  by (subst bit_length.simps) simp

lemma bit_length_gt0: "0 < n \<Longrightarrow> 0 < bit_length n"
  by (simp add: bit_length_pos)

lemma bit_length_upper: "n < 2 ^ bit_length n"
proof (induction n rule: bit_length.induct)
  case (1 n)
  show ?case
  proof (cases "n = 0")
    case True
    then show ?thesis by (simp add: bit_length_0)
  next
    case False
    with 1 have "n div 2 < 2 ^ bit_length (n div 2)" by simp
    then have "n < 2 * 2 ^ bit_length (n div 2)" by linarith
    with False show ?thesis by (simp add: bit_length_pos)
  qed
qed

lemma bit_length_lower: "0 < n \<Longrightarrow> 2 ^ (bit_length n - 1) \<le> n"
proof (induction n rule: bit_length.induct)
  case (1 n)
  show ?case
  proof (cases "n div 2 = 0")
    case True
    with 1 have "bit_length n = 1" by (simp add: bit_length_pos bit_length_0)
    with 1 show ?thesis by simp
  next
    case False
    with 1 have ih: "2 ^ (bit_length (n div 2) - 1) \<le> n div 2" by simp
    from False have "0 < bit_length (n div 2)" by (simp add: bit_length_gt0)
    then have "(2::nat) ^ bit_length (n div 2) = 2 * 2 ^ (bit_length (n div 2) - 1)"
      by (cases "bit_length (n div 2)") simp_all
    with ih have "2 ^ bit_length (n div 2) \<le> n" by linarith
    with 1 show ?thesis by (simp add: bit_length_pos)
  qed
qed

lemma bit_length_le: "n < 2 ^ k \<Longrightarrow> bit_length n \<le> k"
proof (rule ccontr)
  assume lt: "n < 2 ^ k" and "\<not> bit_length n \<le> k"
  then have k: "k \<le> bit_length n - 1" and pos: "0 < n"
    by (auto simp: bit_length_0 intro: Nat.gr0I)
  have "(2::nat) ^ k \<le> 2 ^ (bit_length n - 1)" using k by (simp add: power_increasing)
  also have "\<dots> \<le> n" using pos by (rule bit_length_lower)
  finally show False using lt by simp
qed

lemma bit_length_ge: "2 ^ k \<le> n \<Longrightarrow> k < bit_length n"
proof (rule ccontr)
  assume le: "2 ^ k \<le> n" and "\<not> k < bit_length n"
  then have "bit_length n \<le> k" by simp
  then have "(2::nat) ^ bit_length n \<le> 2 ^ k" by (simp add: power_increasing)
  with le bit_length_upper [of n] show False by linarith
qed

lemma bit_length_2: "bit_length 2 = 2"
  by (simp add: bit_length_pos bit_length_0)

text \<open>Halving: the quotient \<open>p / 2\<close> has binary exponent \<open>bit_length p - 2\<close>.\<close>

lemma binary_exponent_2:
  assumes "0 < p"
  shows "binary_exponent p 2 = int (bit_length p) - 2"
proof (cases "bit_length p = 1")
  case True
  then show ?thesis using assms by (simp add: binary_exponent_def bit_length_2)
next
  case False
  with assms bit_length_gt0 [of p] obtain j where j: "bit_length p = Suc (Suc j)"
    by (cases "bit_length p"; cases "bit_length p - 1") auto
  have "2 ^ (bit_length p - 1) \<le> p" using assms by (rule bit_length_lower)
  with j show ?thesis by (simp add: binary_exponent_def bit_length_2)
qed


section \<open>Halving by true division\<close>

lemma round_half_even_double: "round_half_even (2 * a) 2 = a"
  by (simp add: round_half_even_def)

lemma py_truediv_2_small:
  assumes "0 < n" "n < 2 ^ 53"
  shows "py_truediv n 2 = Inr (Float (n * 2 ^ (53 - bit_length (nat n))) (int (bit_length (nat n)) - 54))"
proof -
  let ?p = "nat n" and ?k = "bit_length (nat n)"
  have p: "0 < ?p" using assms by simp
  have "?p < 2 ^ 53" using assms by (simp add: nat_less_iff)
  then have k: "?k \<le> 53" by (rule bit_length_le)
  have e: "binary_exponent ?p 2 = int ?k - 2" using p by (rule binary_exponent_2)
  have nt: "nat (54 - int ?k) = Suc (53 - ?k)" using k by linarith
  have m: "round_half_even (?p * (2 * 2 ^ (53 - ?k))) 2 = ?p * 2 ^ (53 - ?k)"
    using round_half_even_double [of "?p * 2 ^ (53 - ?k)"] by (simp add: mult.left_commute)
  have n: "int ?p = n" using assms by simp
  show ?thesis using assms(1) k
    by (simp add: py_truediv_def Let_def e nt m n)
qed

lemma py_int_truediv_2_small:
  assumes "0 < n" "n < 2 ^ 53"
  shows "py_int (Float (n * 2 ^ (53 - bit_length (nat n))) (int (bit_length (nat n)) - 54)) = n div 2"
proof -
  let ?k = "bit_length (nat n)"
  have "nat n < 2 ^ 53" using assms by (simp add: nat_less_iff)
  then have k: "?k \<le> 53" by (rule bit_length_le)
  have nt: "nat (54 - int ?k) = Suc (53 - ?k)" using k by linarith
  have pos: "0 < n * 2 ^ (53 - ?k)" using assms by simp
  have "(n * 2 ^ (53 - ?k)) div 2 ^ Suc (53 - ?k) = n div 2"
    by (simp add: mult.commute [of 2])
  with pos k show ?thesis by (simp add: nt)
qed

lemma prefill_tokens_exact:
  assumes "0 < b" "0 < s" "s * b \<le> 2 ^ 53"
  shows "prefill_tokens b s = Inr ((b * s) div 2)"
proof (cases "s * b = 2 ^ 53")
  case True
  have "py_truediv (2 ^ 53) 2 = Inr (Float (2 ^ 52) 0)"
    by (simp add: py_truediv_def binary_exponent_def bit_length_pos bit_length_0 round_half_even_def Let_def)
  with True show ?thesis by (simp add: prefill_tokens_def mult.commute)
next
  case False
  with assms have "0 < s * b" "s * b < 2 ^ 53" by simp_all
  then show ?thesis
    by (simp add: prefill_tokens_def py_truediv_2_small py_int_truediv_2_small mult.commute del: py_int.simps)
qed

text \<open>Halving overflows only from \<open>2 ^ 1024\<close> on.\<close>

lemma round_half_even_le: "round_half_even n d \<le> Suc (n div d)"
  by (simp add: round_half_even_def Let_def)

lemma py_truediv_2_no_overflow:
  assumes "\<bar>n\<bar> < 2 ^ 1024"
  shows "\<exists>x. py_truediv n 2 = Inr x"
proof (cases "n = 0")
  case True
  then show ?thesis by (simp add: py_truediv_def)
next
  case False
  let ?p = "nat \<bar>n\<bar>"
  let ?k = "bit_length ?p"
  let ?t = "int ?k - 54"
  let ?m = "round_half_even (?p * 2 ^ nat (- ?t)) (2 * 2 ^ nat ?t)"
  have p: "0 < ?p" using False by simp
  have "?p < 2 ^ 1024" using assms by (simp add: nat_less_iff)
  then have k: "?k \<le> 1024" by (rule bit_length_le)
  have e: "binary_exponent ?p 2 = int ?k - 2" using p by (rule binary_exponent_2)
  have t: "max (int ?k - 2) (- 1022) - 52 = ?t" by simp
  have ok: "\<not> (0 \<le> ?t \<and> 2 ^ 1024 \<le> ?m * 2 ^ nat ?t)"
  proof
    assume a: "0 \<le> ?t \<and> 2 ^ 1024 \<le> ?m * 2 ^ nat ?t"
    then have "54 \<le> ?k" by simp
    then obtain j where j: "?k = 54 + j" using le_Suc_ex by blast
    have nt: "nat ?t = j" and nt': "nat (- ?t) = 0" "nat (54 - int ?k) = 0"
      using j by linarith+
    have "?p < 2 ^ ?k" by (rule bit_length_upper)
    also have "(2::nat) ^ ?k = 2 ^ 53 * (2 * 2 ^ j)"
      by (simp add: j power_add)
    finally have "?p div (2 * 2 ^ j) < 2 ^ 53"
      by (rule less_mult_imp_div_less)
    then have "?m \<le> 2 ^ 53"
      using round_half_even_le [of ?p "2 * 2 ^ j"] by (simp add: nt nt')
    then have "?m * 2 ^ j \<le> 2 ^ 53 * 2 ^ j" by (rule mult_le_mono1)
    also have "\<dots> = 2 ^ (?k - 1)" by (simp add: j power_add)
    also have "\<dots> < 2 ^ 1024" using k by (simp only: power_strict_increasing_iff)
    finally show False using a by (simp add: nt nt')
  qed
  have q: "nat \<bar>2::int\<bar> = 2" by simp
  show ?thesis
    unfolding py_truediv_def Let_def q e t using False ok by simp
qed

lemma py_truediv_2_error:
  assumes "py_truediv n 2 = Inl e"
  shows "e = OverflowError \<and> 2 ^ 1024 \<le> \<bar>n\<bar>"
proof
  from assms show "e = OverflowError"
    by (simp add: py_truediv_def Let_def split: if_splits)
  show "2 ^ 1024 \<le> \<bar>n\<bar>"
  proof (rule ccontr)
    assume "\<not> 2 ^ 1024 \<le> \<bar>n\<bar>"
    then have "\<bar>n\<bar> < 2 ^ 1024" by simp
    then obtain x where "py_truediv n 2 = Inr x" using py_truediv_2_no_overflow by blast
    with assms show False by simp
  qed
qed


section \<open>Decimal strings\<close>

lemma digit_char_props:
  assumes "d < 10"
  shows "is_digit (digit_char d)" and "(of_char (digit_char d) :: nat) - 48 = d"
proof -
  from assms consider "d = 0" | "d = 1" | "d = 2" | "d = 3" | "d = 4"
    | "d = 5" | "d = 6" | "d = 7" | "d = 8" | "d = 9" by atomize_elim arith
  then have "is_digit (digit_char d) \<and> (of_char (digit_char d) :: nat) - 48 = d"
    by cases (simp_all add: digit_char_def is_digit_def)
  then show "is_digit (digit_char d)" and "(of_char (digit_char d) :: nat) - 48 = d"
    by simp_all
qed

lemma decimal_value_append:
  "decimal_value acc (xs @ ys) =
     (case decimal_value acc xs of None \<Rightarrow> None | Some v \<Rightarrow> decimal_value v ys)"
  by (induction xs arbitrary: acc) simp_all

lemma decimal_small: "n < 10 \<Longrightarrow> decimal n = [digit_char n]"
  by (subst decimal.simps) simp

lemma decimal_big: "10 \<le> n \<Longrightarrow> decimal n = decimal (n div 10) @ [digit_char (n mod 10)]"
  by (subst decimal.simps) simp

lemma decimal_value_decimal: "decimal_value 0 (decimal n) = Some n"
proof (induction n rule: decimal.induct)
  case (1 n)
  show ?case
  proof (cases "n < 10")
    case True
    then show ?thesis by (simp add: decimal_small digit_char_props)
  next
    case False
    with 1 have "decimal_value 0 (decimal (n div 10)) = Some (n div 10)" by simp
    with False show ?thesis
      by (simp add: decimal_big decimal_value_append digit_char_props)
  qed
qed

lemma decimal_first_digit: "\<exists>c cs. decimal n = c # cs \<and> is_digit c"
proof (induction n rule: decimal.induct)
  case (1 n)
  show ?case
  proof (cases "n < 10")
    case True
    then show ?thesis by (simp add: decimal_small digit_char_props)
  next
    case False
    with 1 obtain c cs where "decimal (n div 10) = c # cs" "is_digit c" by auto
    with False show ?thesis by (simp add: decimal_big)
  qed
qed

lemma minus_not_digit: "\<not> is_digit CHR ''-''"
  by (simp add: is_digit_def)

lemma parse_int_json_dumps: "parse_int (json_dumps n) = Some n"
proof (cases "n < 0")
  case True
  obtain c cs where "decimal (nat (- n)) = c # cs"
    using decimal_first_digit by blast
  then have "decimal (nat (- n)) \<noteq> []" by simp
  with True show ?thesis
    by (simp add: parse_int_def json_dumps_def decimal_value_decimal)
next
  case False
  obtain c cs where c: "decimal (nat n) = c # cs" "is_digit c"
    using decimal_first_digit by blast
  then have "c \<noteq> CHR ''-''" using minus_not_digit by auto
  moreover have "decimal_value 0 (c # cs) = Some (nat n)"
    using decimal_value_decimal [of "nat n"] c by simp
  ultimately show ?thesis using False c
    by (simp add: parse_int_def json_dumps_def del: decimal_value.simps)
qed

lemma json_dumps_inject: "json_dumps m = json_dumps n \<longleftrightarrow> m = n"
  by (metis option.inject parse_int_json_dumps)


section \<open>The configuration, entry by entry\<close>

lemma config_of_prefill:
  "prefill_tokens b s = Inr p \<Longrightarrow>
   config b s =
     Inr [(''HF_MODEL_ID'', ''aws-neuron/zephyr-7b-seqlen-2048-bs-4-cores-2''),
          (''MAX_CONCURRENT_REQUESTS'', json_dumps b),
          (''MAX_INPUT_LENGTH'', json_dumps 1512),
          (''MAX_TOTAL_TOKENS'', json_dumps s),
          (''MAX_BATCH_PREFILL_TOKENS'', json_dumps p),
          (''MAX_BATCH_TOTAL_TOKENS'', json_dumps (s * b))]"
  by (simp add: config_def)

lemma config_Inr_prefill:
  "config b s = Inr env \<Longrightarrow> \<exists>p. prefill_tokens b s = Inr p"
  by (cases "prefill_tokens b s") (simp_all add: config_def)

lemma config_Inl_prefill:
  "config b s = Inl e \<Longrightarrow> prefill_tokens b s = Inl e"
  by (cases "prefill_tokens b s") (simp_all add: config_def)

lemma prefill_tokens_Inl:
  "prefill_tokens b s = Inl e \<Longrightarrow> py_truediv (s * b) 2 = Inl e"
  by (cases "py_truediv (s * b) 2") (simp_all add: prefill_tokens_def)

lemma prefill_tokens_total:
  assumes "\<bar>s * b\<bar> < 2 ^ 1024"
  shows "\<exists>p. prefill_tokens b s = Inr p"
proof -
  from assms obtain x where "py_truediv (s * b) 2 = Inr x"
    using py_truediv_2_no_overflow by blast
  then show ?thesis by (simp add: prefill_tokens_def)
qed

lemma env_int_config:
  assumes "config b s = Inr env"
  shows "env_int env ''MAX_CONCURRENT_REQUESTS'' = Some b"
    and "env_int env ''MAX_INPUT_LENGTH'' = Some 1512"
    and "env_int env ''MAX_TOTAL_TOKENS'' = Some s"
    and "env_int env ''MAX_BATCH_TOTAL_TOKENS'' = Some (s * b)"
    and "prefill_tokens b s = Inr p \<Longrightarrow> env_int env ''MAX_BATCH_PREFILL_TOKENS'' = Some p"
proof -
  from assms obtain q where q: "prefill_tokens b s = Inr q"
    using config_Inr_prefill by blast
  with assms have env: "env =
     [(''HF_MODEL_ID'', ''aws-neuron/zephyr-7b-seqlen-2048-bs-4-cores-2''),
      (''MAX_CONCURRENT_REQUESTS'', json_dumps b),
      (''MAX_INPUT_LENGTH'', json_dumps 1512),
      (''MAX_TOTAL_TOKENS'', json_dumps s),
      (''MAX_BATCH_PREFILL_TOKENS'', json_dumps q),
      (''MAX_BATCH_TOTAL_TOKENS'', json_dumps (s * b))]"
    by (simp add: config_of_prefill)
  show "env_int env ''MAX_CONCURRENT_REQUESTS'' = Some b"
    by (simp add: env env_int_def parse_int_json_dumps)
  show "env_int env ''MAX_INPUT_LENGTH'' = Some 1512"
    by (simp add: env env_int_def parse_int_json_dumps)
  show "env_int env ''MAX_TOTAL_TOKENS'' = Some s"
    by (simp add: env env_int_def parse_int_json_dumps)
  show "env_int env ''MAX_BATCH_TOTAL_TOKENS'' = Some (s * b)"
    by (simp add: env env_int_def parse_int_json_dumps)
  show "env_int env ''MAX_BATCH_PREFILL_TOKENS'' = Some p" if "prefill_tokens b s = Inr p"
    using that q by (simp add: env env_int_def parse_int_json_dumps)
qed

text \<open>A product that does overflow: \<open>2 ^ 1025 / 2\<close> is \<open>2 ^ 1024\<close>, past the largest float.\<close>

lemma bit_length_power2: "bit_length (2 ^ k) = Suc k"
proof -
  have "k < bit_length (2 ^ k)" by (rule bit_length_ge) simp
  moreover have "bit_length (2 ^ k) \<le> Suc k" by (rule bit_length_le) simp
  ultimately show ?thesis by simp
qed

lemma py_truediv_overflow: "py_truediv (2 ^ 1025) 2 = Inl OverflowError"
proof -
  have p: "nat \<bar>2 ^ 1025 :: int\<bar> = 2 ^ 1025" by (simp add: nat_power_eq)
  have q: "nat \<bar>2::int\<bar> = 2" by simp
  have e: "binary_exponent (2 ^ 1025) 2 = 1024"
    using binary_exponent_2 [of "2 ^ 1025"] by (simp only: bit_length_power2) simp
  have t: "max (1024::int) (- 1022) - 52 = 972" by simp
  have nt: "nat (972::int) = 972" "nat (- (972::int)) = 0" by simp_all
  have m: "round_half_even (2 ^ 1025 * 2 ^ 0) (2 * 2 ^ 972) = 2 ^ 52"
  proof -
    have "(2::nat) ^ 1025 = 2 ^ 52 * 2 ^ 973" by (simp only: flip: power_add) simp
    then have "(2::nat) ^ 1025 * 2 ^ 0 = 2 ^ 52 * (2 * 2 ^ 972)" by (simp only: power_Suc [symmetric] power_0 mult_1_right) simp
    then show ?thesis unfolding round_half_even_def Let_def by (simp only:) simp
  qed
  have ov: "(2::nat) ^ 1024 \<le> 2 ^ 52 * 2 ^ 972" by (simp only: flip: power_add) simp
  have z: "(2::int) ^ 1025 \<noteq> 0" "(2::int) \<noteq> 0" "(0::int) \<le> 972" by simp_all
  show ?thesis
    unfolding py_truediv_def Let_def p q e t nt m using ov z by (simp only: if_False if_True simp_thms) 
qed

lemma config_overflow: "config (2 ^ 513) (2 ^ 512) = Inl OverflowError"
proof -
  have "(2::int) ^ 512 * 2 ^ 513 = 2 ^ 1025" by (simp only: flip: power_add) simp
  then show ?thesis
    using py_truediv_overflow by (simp only: config_def prefill_tokens_def sum.case)
qed

text \<open>Rules that evaluate the definitions on numerals.\<close>

lemmas eval_simps =
  config_int_def env_int_def parse_int_def is_digit_def config_def prefill_tokens_def
  py_truediv_def binary_exponent_def bit_length_0 bit_length_pos round_half_even_def Let_def
  json_dumps_def decimal_small decimal_big digit_char_def

text \<open>Concrete configurations.\<close>

lemma config_4_2048:
  "config 4 2048 =
     Inr [(''HF_MODEL_ID'', ''aws-neuron/zephyr-7b-seqlen-2048-bs-4-cores-2''),
          (''MAX_CONCURRENT_REQUESTS'', ''4''),
          (''MAX_INPUT_LENGTH'', ''1512''),
          (''MAX_TOTAL_TOKENS'', ''2048''),
          (''MAX_BATCH_PREFILL_TOKENS'', ''4096''),
          (''MAX_BATCH_TOTAL_TOKENS'', ''8192'')]"
  by (simp add: eval_simps)

lemma config_4_2048_notebook: "config 4 2048 = Inr notebook_config"
  by (simp only: config_4_2048 notebook_config_def)

lemma config_1_1024:
  "config 1 1024 =
     Inr [(''HF_MODEL_ID'', ''aws-neuron/zephyr-7b-seqlen-2048-bs-4-cores-2''),
          (''MAX_CONCURRENT_REQUESTS'', ''1''),
          (''MAX_INPUT_LENGTH'', ''1512''),
          (''MAX_TOTAL_TOKENS'', ''1024''),
          (''MAX_BATCH_PREFILL_TOKENS'', ''512''),
          (''MAX_BATCH_TOTAL_TOKENS'', ''1024'')]"
  by (simp add: eval_simps)

lemma config_4_1024:
  "config 4 1024 =
     Inr [(''HF_MODEL_ID'', ''aws-neuron/zephyr-7b-seqlen-2048-bs-4-cores-2''),
          (''MAX_CONCURRENT_REQUESTS'', ''4''),
          (''MAX_INPUT_LENGTH'', ''1512''),
          (''MAX_TOTAL_TOKENS'', ''1024''),
          (''MAX_BATCH_PREFILL_TOKENS'', ''2048''),
          (''MAX_BATCH_TOTAL_TOKENS'', ''4096'')]"
  by (simp add: eval_simps)

lemma config_4_1000:
  "config 4 1000 =
     Inr [(''HF_MODEL_ID'', ''aws-neuron/zephyr-7b-seqlen-2048-bs-4-cores-2''),
          (''MAX_CONCURRENT_REQUESTS'', ''4''),
          (''MAX_INPUT_LENGTH'', ''1512''),
          (''MAX_TOTAL_TOKENS'', ''1000''),
          (''MAX_BATCH_PREFILL_TOKENS'', ''2000''),
          (''MAX_BATCH_TOTAL_TOKENS'', ''4000'')]"
  by (simp add: eval_simps)

lemma config_2_big:
  "config 2 9007199254740993 =
     Inr [(''HF_MODEL_ID'', ''aws-neuron/zephyr-7b-seqlen-2048-bs-4-cores-2''),
          (''MAX_CONCURRENT_REQUESTS'', ''2''),
          (''MAX_INPUT_LENGTH'', ''1512''),
          (''MAX_TOTAL_TOKENS'', ''9007199254740993''),
          (''MAX_BATCH_PREFILL_TOKENS'', ''9007199254740992''),
          (''MAX_BATCH_TOTAL_TOKENS'', ''18014398509481986'')]"
  by (simp add: eval_simps)

text \<open>Reading an integer out of a concrete configuration.\<close>

lemmas read_simps = config_int_def env_int_def parse_int_def is_digit_def

section \<open>The claims\<close>

text \<open>
  Claim C1: for all positive \<open>b\<close> and \<open>s\<close> the configuration holds \<open>b\<close> concurrent
  requests, \<open>s\<close> total tokens, \<open>b * s\<close> batch total tokens and \<open>\<lfloor>b * s / 2\<rfloor>\<close> prefill
  tokens, by integer arithmetic. The cell divides with \<^verbatim>\<open>/\<close>, in floating point, so the
  last equation does not hold for all positive integers: with \<^verbatim>\<open>batch_size = 2\<close> and
  \<^verbatim>\<open>sequence_length = 9007199254740993\<close> (\<open>2 ^ 53 + 1\<close>) the product is \<open>2 ^ 54 + 2\<close>, its
  half \<open>2 ^ 53 + 1\<close> is not a float, and the configuration holds \<open>2 ^ 53\<close>.
\<close>

theorem prefill_tokens_rounds_past_half:
  "config_int 2 9007199254740993 ''MAX_BATCH_PREFILL_TOKENS'' = Some 9007199254740992
   \<and> config_int 2 9007199254740993 ''MAX_BATCH_TOTAL_TOKENS'' = Some 18014398509481986
   \<and> (2 * 9007199254740993) div 2 = (9007199254740993 :: int)"
proof -
  have "config_int 2 9007199254740993 ''MAX_BATCH_PREFILL_TOKENS'' = Some 9007199254740992"
    by (simp add: read_simps config_2_big)
  moreover
  have "config_int 2 9007199254740993 ''MAX_BATCH_TOTAL_TOKENS'' = Some 18014398509481986"
    by (simp add: read_simps config_2_big)
  moreover have "(2 * 9007199254740993) div 2 = (9007199254740993 :: int)"
    by simp
  ultimately show ?thesis by (simp only: simp_thms)
qed

text \<open>
  Claim C1, as the code has it: for all positive \<open>b\<close> and \<open>s\<close> with \<open>b * s \<le> 2 ^ 53\<close>
  (the notebook's own 4 and 2048 among them) the configuration is built and holds \<open>b\<close>
  concurrent requests, \<open>s\<close> total tokens, \<open>b * s\<close> batch total tokens and
  \<open>\<lfloor>b * s / 2\<rfloor>\<close> prefill tokens.
\<close>

theorem derived_fields_exact:
  assumes "0 < b" and "0 < s" and "b * s \<le> 2 ^ 53"
  shows "config_int b s ''MAX_CONCURRENT_REQUESTS'' = Some b
         \<and> config_int b s ''MAX_TOTAL_TOKENS'' = Some s
         \<and> config_int b s ''MAX_BATCH_TOTAL_TOKENS'' = Some (b * s)
         \<and> config_int b s ''MAX_BATCH_PREFILL_TOKENS'' = Some ((b * s) div 2)"
proof -
  from assms have p: "prefill_tokens b s = Inr ((b * s) div 2)"
    by (simp add: prefill_tokens_exact mult.commute)
  then obtain env where env: "config b s = Inr env"
    by (simp add: config_of_prefill)
  have "config_int b s ''MAX_CONCURRENT_REQUESTS'' = Some b"
    using env_int_config(1) [OF env] env by (simp add: config_int_def)
  moreover have "config_int b s ''MAX_TOTAL_TOKENS'' = Some s"
    using env_int_config(3) [OF env] env by (simp add: config_int_def)
  moreover have "config_int b s ''MAX_BATCH_TOTAL_TOKENS'' = Some (b * s)"
    using env_int_config(4) [OF env] env by (simp add: config_int_def mult.commute)
  moreover have "config_int b s ''MAX_BATCH_PREFILL_TOKENS'' = Some ((b * s) div 2)"
    using env_int_config(5) [OF env p] env by (simp add: config_int_def)
  ultimately show ?thesis by (simp only: simp_thms)
qed

theorem derived_fields_exact_witness:
  "(0::int) < 3 \<and> (0::int) < 5 \<and> (3::int) * 5 \<le> 2 ^ 53
   \<and> config_int 3 5 ''MAX_CONCURRENT_REQUESTS'' = Some 3
   \<and> config_int 3 5 ''MAX_TOTAL_TOKENS'' = Some 5
   \<and> config_int 3 5 ''MAX_BATCH_TOTAL_TOKENS'' = Some 15
   \<and> config_int 3 5 ''MAX_BATCH_PREFILL_TOKENS'' = Some 7"
  using derived_fields_exact [of 3 5] by simp

text \<open>
  Claim C2: the construction fails with \<^verbatim>\<open>InvalidConfiguration\<close> exactly when
  \<open>batch_size \<le> 0\<close>, \<open>sequence_length \<le> 0\<close> or the input length exceeds the sequence
  length. The cell checks nothing: a zero batch size gives a configuration.
\<close>

theorem zero_batch_size_accepted:
  "config 0 2048 =
     Inr [(''HF_MODEL_ID'', ''aws-neuron/zephyr-7b-seqlen-2048-bs-4-cores-2''),
          (''MAX_CONCURRENT_REQUESTS'', ''0''),
          (''MAX_INPUT_LENGTH'', ''1512''),
          (''MAX_TOTAL_TOKENS'', ''2048''),
          (''MAX_BATCH_PREFILL_TOKENS'', ''0''),
          (''MAX_BATCH_TOTAL_TOKENS'', ''0'')]"
  by (simp add: eval_simps)

text \<open>
  Claim C2, as the code has it: for batch sizes and sequence lengths below \<open>2 ^ 1024\<close>
  in magnitude, zero and negative values included, a configuration is built whenever
  the product is below \<open>2 ^ 1024\<close> in magnitude; the construction has one failure, the
  \<^verbatim>\<open>OverflowError\<close> of the division, and only for a product of magnitude \<open>2 ^ 1024\<close> or
  more.
\<close>

theorem config_fails_only_by_overflow:
  assumes "\<bar>b\<bar> < 2 ^ 1024" and "\<bar>s\<bar> < 2 ^ 1024"
  shows "(\<bar>s * b\<bar> < 2 ^ 1024 \<longrightarrow> (\<exists>env. config b s = Inr env))
   \<and> (config b s = Inl e \<longrightarrow> e = OverflowError \<and> 2 ^ 1024 \<le> \<bar>s * b\<bar>)"
proof (intro conjI impI)
  assume "\<bar>s * b\<bar> < 2 ^ 1024"
  then obtain p where "prefill_tokens b s = Inr p"
    using prefill_tokens_total by blast
  then show "\<exists>env. config b s = Inr env"
    by (simp add: config_of_prefill)
next
  assume "config b s = Inl e"
  then have "py_truediv (s * b) 2 = Inl e"
    by (intro prefill_tokens_Inl config_Inl_prefill)
  then have "e = OverflowError \<and> 2 ^ 1024 \<le> \<bar>s * b\<bar>"
    by (rule py_truediv_2_error)
  then show "e = OverflowError" and "2 ^ 1024 \<le> \<bar>s * b\<bar>" by simp_all
qed

theorem config_fails_only_by_overflow_witness:
  "\<bar>0 :: int\<bar> < 2 ^ 1024 \<and> \<bar>- 7 :: int\<bar> < 2 ^ 1024 \<and> \<bar>(- 7) * (0::int)\<bar> < 2 ^ 1024
   \<and> (\<exists>env. config 0 (- 7) = Inr env)
   \<and> \<bar>2 ^ 513 :: int\<bar> < 2 ^ 1024 \<and> \<bar>2 ^ 512 :: int\<bar> < 2 ^ 1024
   \<and> config (2 ^ 513) (2 ^ 512) = Inl OverflowError
   \<and> (2::int) ^ 1024 \<le> \<bar>2 ^ 512 * 2 ^ 513\<bar>"
proof -
  have z: "\<bar>0 :: int\<bar> < 2 ^ 1024" by simp
  have m: "\<bar>- 7 :: int\<bar> < 2 ^ 1024" by simp
  have small: "\<bar>(- 7) * (0::int)\<bar> < 2 ^ 1024" by simp
  have b: "\<bar>2 ^ 513 :: int\<bar> < 2 ^ 1024"
    by simp
  have s: "\<bar>2 ^ 512 :: int\<bar> < 2 ^ 1024"
    by simp
  from config_fails_only_by_overflow [OF z m] small
  have "\<exists>env. config 0 (- 7) = Inr env" by blast
  moreover from config_fails_only_by_overflow [OF b s, of OverflowError] config_overflow
  have "(2::int) ^ 1024 \<le> \<bar>2 ^ 512 * 2 ^ 513\<bar>" by blast
  ultimately show ?thesis using z m small b s config_overflow by (simp only: simp_thms)
qed




text \<open>
  Claim C4: with \<^verbatim>\<open>batch_size = 4\<close> and \<^verbatim>\<open>sequence_length = 2048\<close> (and the cell's
  \<^verbatim>\<open>MAX_INPUT_LENGTH\<close> of 1512) the configuration holds 4 concurrent requests, 2048 total
  tokens, 4096 prefill tokens and 8192 batch total tokens; with \<^verbatim>\<open>batch_size = 1\<close> and
  \<^verbatim>\<open>sequence_length = 1024\<close> it holds 512 prefill tokens and 1024 batch total tokens.
  The cell has no parameter for the input length, and neither of the two derived values
  of the second scenario reads it.
\<close>

theorem scenario_values:
  "config_int 4 2048 ''MAX_CONCURRENT_REQUESTS'' = Some 4
   \<and> config_int 4 2048 ''MAX_INPUT_LENGTH'' = Some 1512
   \<and> config_int 4 2048 ''MAX_TOTAL_TOKENS'' = Some 2048
   \<and> config_int 4 2048 ''MAX_BATCH_PREFILL_TOKENS'' = Some 4096
   \<and> config_int 4 2048 ''MAX_BATCH_TOTAL_TOKENS'' = Some 8192
   \<and> config_int 1 1024 ''MAX_BATCH_PREFILL_TOKENS'' = Some 512
   \<and> config_int 1 1024 ''MAX_BATCH_TOTAL_TOKENS'' = Some 1024"
proof -
  have "config_int 4 2048 ''MAX_CONCURRENT_REQUESTS'' = Some 4"
    by (simp add: read_simps config_4_2048)
  moreover have "config_int 4 2048 ''MAX_INPUT_LENGTH'' = Some 1512"
    by (simp add: read_simps config_4_2048)
  moreover have "config_int 4 2048 ''MAX_TOTAL_TOKENS'' = Some 2048"
    by (simp add: read_simps config_4_2048)
  moreover have "config_int 4 2048 ''MAX_BATCH_PREFILL_TOKENS'' = Some 4096"
    by (simp add: read_simps config_4_2048)
  moreover have "config_int 4 2048 ''MAX_BATCH_TOTAL_TOKENS'' = Some 8192"
    by (simp add: read_simps config_4_2048)
  moreover have "config_int 1 1024 ''MAX_BATCH_PREFILL_TOKENS'' = Some 512"
    by (simp add: read_simps config_1_1024)
  moreover have "config_int 1 1024 ''MAX_BATCH_TOTAL_TOKENS'' = Some 1024"
    by (simp add: read_simps config_1_1024)
  ultimately show ?thesis by (simp only: simp_thms)
qed

text \<open>
  Claim C5: the record handed to the provisioning call has exactly the six keys
  \<^verbatim>\<open>HF_MODEL_ID\<close>, \<^verbatim>\<open>MAX_CONCURRENT_REQUESTS\<close>, \<^verbatim>\<open>MAX_INPUT_LENGTH\<close>, \<^verbatim>\<open>MAX_TOTAL_TOKENS\<close>,
  \<^verbatim>\<open>MAX_BATCH_PREFILL_TOKENS\<close> and \<^verbatim>\<open>MAX_BATCH_TOTAL_TOKENS\<close>, each once; the first holds the
  model identifier, and every other value is the decimal string of the integer the cell
  computed for it: it is the \<^verbatim>\<open>json.dumps\<close> of that integer and reads back as that
  integer.
\<close>

theorem config_payload:
  assumes "config b s = Inr env"
  shows "\<exists>p. prefill_tokens b s = Inr p
     \<and> map fst env =
         [''HF_MODEL_ID'', ''MAX_CONCURRENT_REQUESTS'', ''MAX_INPUT_LENGTH'',
          ''MAX_TOTAL_TOKENS'', ''MAX_BATCH_PREFILL_TOKENS'', ''MAX_BATCH_TOTAL_TOKENS'']
     \<and> distinct (map fst env)
     \<and> map_of env ''HF_MODEL_ID'' = Some ''aws-neuron/zephyr-7b-seqlen-2048-bs-4-cores-2''
     \<and> map_of env ''MAX_CONCURRENT_REQUESTS'' = Some (json_dumps b)
     \<and> map_of env ''MAX_INPUT_LENGTH'' = Some (json_dumps 1512)
     \<and> map_of env ''MAX_TOTAL_TOKENS'' = Some (json_dumps s)
     \<and> map_of env ''MAX_BATCH_PREFILL_TOKENS'' = Some (json_dumps p)
     \<and> map_of env ''MAX_BATCH_TOTAL_TOKENS'' = Some (json_dumps (s * b))
     \<and> env_int env ''MAX_CONCURRENT_REQUESTS'' = Some b
     \<and> env_int env ''MAX_INPUT_LENGTH'' = Some 1512
     \<and> env_int env ''MAX_TOTAL_TOKENS'' = Some s
     \<and> env_int env ''MAX_BATCH_PREFILL_TOKENS'' = Some p
     \<and> env_int env ''MAX_BATCH_TOTAL_TOKENS'' = Some (s * b)"
proof -
  from assms obtain p where p: "prefill_tokens b s = Inr p"
    using config_Inr_prefill by blast
  have env: "env =
     [(''HF_MODEL_ID'', ''aws-neuron/zephyr-7b-seqlen-2048-bs-4-cores-2''),
      (''MAX_CONCURRENT_REQUESTS'', json_dumps b),
      (''MAX_INPUT_LENGTH'', json_dumps 1512),
      (''MAX_TOTAL_TOKENS'', json_dumps s),
      (''MAX_BATCH_PREFILL_TOKENS'', json_dumps p),
      (''MAX_BATCH_TOTAL_TOKENS'', json_dumps (s * b))]"
    using assms config_of_prefill [OF p] by simp
  have keys: "map fst env =
         [''HF_MODEL_ID'', ''MAX_CONCURRENT_REQUESTS'', ''MAX_INPUT_LENGTH'',
          ''MAX_TOTAL_TOKENS'', ''MAX_BATCH_PREFILL_TOKENS'', ''MAX_BATCH_TOTAL_TOKENS'']"
    by (simp add: env)
  have dist: "distinct (map fst env)" by (simp add: keys)
  have m1: "map_of env ''HF_MODEL_ID'' = Some ''aws-neuron/zephyr-7b-seqlen-2048-bs-4-cores-2''"
    by (simp add: env)
  have m2: "map_of env ''MAX_CONCURRENT_REQUESTS'' = Some (json_dumps b)"
    by (simp add: env)
  have m3: "map_of env ''MAX_INPUT_LENGTH'' = Some (json_dumps 1512)"
    by (simp add: env)
  have m4: "map_of env ''MAX_TOTAL_TOKENS'' = Some (json_dumps s)"
    by (simp add: env)
  have m5: "map_of env ''MAX_BATCH_PREFILL_TOKENS'' = Some (json_dumps p)"
    by (simp add: env)
  have m6: "map_of env ''MAX_BATCH_TOTAL_TOKENS'' = Some (json_dumps (s * b))"
    by (simp add: env)
  note i = env_int_config [OF assms]
  note j = i(5) [OF p]
  show ?thesis
    by (rule exI [of _ p])
      (simp only: p keys [symmetric] dist m1 m2 m3 m4 m5 m6 i(1-4) j simp_thms)
qed

theorem config_payload_witness:
  "config 4 2048 = Inr notebook_config
   \<and> (\<exists>p. prefill_tokens 4 2048 = Inr p
     \<and> map fst notebook_config =
         [''HF_MODEL_ID'', ''MAX_CONCURRENT_REQUESTS'', ''MAX_INPUT_LENGTH'',
          ''MAX_TOTAL_TOKENS'', ''MAX_BATCH_PREFILL_TOKENS'', ''MAX_BATCH_TOTAL_TOKENS'']
     \<and> distinct (map fst notebook_config)
     \<and> map_of notebook_config ''HF_MODEL_ID''
         = Some ''aws-neuron/zephyr-7b-seqlen-2048-bs-4-cores-2''
     \<and> map_of notebook_config ''MAX_CONCURRENT_REQUESTS'' = Some (json_dumps 4)
     \<and> map_of notebook_config ''MAX_INPUT_LENGTH'' = Some (json_dumps 1512)
     \<and> map_of notebook_config ''MAX_TOTAL_TOKENS'' = Some (json_dumps 2048)
     \<and> map_of notebook_config ''MAX_BATCH_PREFILL_TOKENS'' = Some (json_dumps p)
     \<and> map_of notebook_config ''MAX_BATCH_TOTAL_TOKENS'' = Some (json_dumps (2048 * 4))
     \<and> env_int notebook_config ''MAX_CONCURRENT_REQUESTS'' = Some 4
     \<and> env_int notebook_config ''MAX_INPUT_LENGTH'' = Some 1512
     \<and> env_int notebook_config ''MAX_TOTAL_TOKENS'' = Some 2048
     \<and> env_int notebook_config ''MAX_BATCH_PREFILL_TOKENS'' = Some p
     \<and> env_int notebook_config ''MAX_BATCH_TOTAL_TOKENS'' = Some (2048 * 4))"
  using config_4_2048_notebook config_payload [OF config_4_2048_notebook] by (rule conjI)

text \<open>
  Claim C7: without an override the input length defaults to the sequence length minus a
  margin (536 in the example), and so varies with the sequence length. The cell writes
  1512 for every sequence length: at 1024 the margin would give 488.
\<close>

theorem input_length_no_margin:
  "config_int 4 1024 ''MAX_INPUT_LENGTH'' = Some 1512
   \<and> config_int 4 2048 ''MAX_INPUT_LENGTH'' = Some 1512
   \<and> (1024 :: int) - 536 \<noteq> 1512"
proof -
  have "config_int 4 1024 ''MAX_INPUT_LENGTH'' = Some 1512"
    by (simp add: read_simps config_4_1024)
  moreover have "config_int 4 2048 ''MAX_INPUT_LENGTH'' = Some 1512"
    by (simp add: read_simps config_4_2048)
  moreover have "(1024 :: int) - 536 \<noteq> 1512" by simp
  ultimately show ?thesis by (simp only: simp_thms)
qed

text \<open>
  Claim C7, as the code has it: there is no override and no margin; any two
  configurations the cell can build hold the same \<^verbatim>\<open>MAX_INPUT_LENGTH\<close>, and it is the
  sequence length minus 536 only when the sequence length is 2048.
\<close>

theorem input_length_constant:
  assumes "config b s = Inr env" and "config b' s' = Inr env'"
  shows "env_int env' ''MAX_INPUT_LENGTH'' = env_int env ''MAX_INPUT_LENGTH''
         \<and> (env_int env ''MAX_INPUT_LENGTH'' = Some (s - 536) \<longleftrightarrow> s = 2048)"
proof -
  have "env_int env ''MAX_INPUT_LENGTH'' = Some 1512"
    using assms(1) by (rule env_int_config)
  moreover have "env_int env' ''MAX_INPUT_LENGTH'' = Some 1512"
    using assms(2) by (rule env_int_config)
  ultimately show ?thesis by auto
qed

theorem input_length_constant_witness:
  "config 4 1024 =
     Inr [(''HF_MODEL_ID'', ''aws-neuron/zephyr-7b-seqlen-2048-bs-4-cores-2''),
          (''MAX_CONCURRENT_REQUESTS'', ''4''),
          (''MAX_INPUT_LENGTH'', ''1512''),
          (''MAX_TOTAL_TOKENS'', ''1024''),
          (''MAX_BATCH_PREFILL_TOKENS'', ''2048''),
          (''MAX_BATCH_TOTAL_TOKENS'', ''4096'')]
   \<and> config 4 2048 =
     Inr [(''HF_MODEL_ID'', ''aws-neuron/zephyr-7b-seqlen-2048-bs-4-cores-2''),
          (''MAX_CONCURRENT_REQUESTS'', ''4''),
          (''MAX_INPUT_LENGTH'', ''1512''),
          (''MAX_TOTAL_TOKENS'', ''2048''),
          (''MAX_BATCH_PREFILL_TOKENS'', ''4096''),
          (''MAX_BATCH_TOTAL_TOKENS'', ''8192'')]
   \<and> (env_int
         [(''HF_MODEL_ID'', ''aws-neuron/zephyr-7b-seqlen-2048-bs-4-cores-2''),
          (''MAX_CONCURRENT_REQUESTS'', ''4''),
          (''MAX_INPUT_LENGTH'', ''1512''),
          (''MAX_TOTAL_TOKENS'', ''2048''),
          (''MAX_BATCH_PREFILL_TOKENS'', ''4096''),
          (''MAX_BATCH_TOTAL_TOKENS'', ''8192'')] ''MAX_INPUT_LENGTH''
       = env_int
         [(''HF_MODEL_ID'', ''aws-neuron/zephyr-7b-seqlen-2048-bs-4-cores-2''),
          (''MAX_CONCURRENT_REQUESTS'', ''4''),
          (''MAX_INPUT_LENGTH'', ''1512''),
          (''MAX_TOTAL_TOKENS'', ''1024''),
          (''MAX_BATCH_PREFILL_TOKENS'', ''2048''),
          (''MAX_BATCH_TOTAL_TOKENS'', ''4096'')] ''MAX_INPUT_LENGTH''
      \<and> (env_int
         [(''HF_MODEL_ID'', ''aws-neuron/zephyr-7b-seqlen-2048-bs-4-cores-2''),
          (''MAX_CONCURRENT_REQUESTS'', ''4''),
          (''MAX_INPUT_LENGTH'', ''1512''),
          (''MAX_TOTAL_TOKENS'', ''1024''),
          (''MAX_BATCH_PREFILL_TOKENS'', ''2048''),
          (''MAX_BATCH_TOTAL_TOKENS'', ''4096'')] ''MAX_INPUT_LENGTH'' = Some (1024 - 536)
        \<longleftrightarrow> (1024 :: int) = 2048))"
  by (rule conjI [OF config_4_1024
        conjI [OF config_4_2048 input_length_constant [OF config_4_1024 config_4_2048]]])

text \<open>
  Claim C8: the cell writes the literal 1512 under \<^verbatim>\<open>MAX_INPUT_LENGTH\<close> whatever the batch
  size and the sequence length, so every configuration built for a sequence length below
  1512 has an input length above its \<^verbatim>\<open>MAX_TOTAL_TOKENS\<close>.
\<close>

theorem input_length_is_1512:
  assumes "config b s = Inr env"
  shows "map_of env ''MAX_INPUT_LENGTH'' = Some ''1512''
         \<and> env_int env ''MAX_INPUT_LENGTH'' = Some 1512
         \<and> (s < 1512 \<longrightarrow>
              (\<exists>i t. env_int env ''MAX_INPUT_LENGTH'' = Some i
                 \<and> env_int env ''MAX_TOTAL_TOKENS'' = Some t \<and> \<not> i \<le> t))"
proof -
  from assms obtain p where p: "prefill_tokens b s = Inr p"
    using config_Inr_prefill by blast
  have d: "json_dumps 1512 = ''1512''" by (simp add: eval_simps)
  have "map_of env ''MAX_INPUT_LENGTH'' = Some ''1512''"
    using assms config_of_prefill [OF p] by (auto simp: d)
  moreover have "env_int env ''MAX_INPUT_LENGTH'' = Some 1512"
    and "env_int env ''MAX_TOTAL_TOKENS'' = Some s"
    using assms by (rule env_int_config)+
  ultimately show ?thesis by auto
qed

theorem input_length_is_1512_witness:
  "config 4 1000 =
     Inr [(''HF_MODEL_ID'', ''aws-neuron/zephyr-7b-seqlen-2048-bs-4-cores-2''),
          (''MAX_CONCURRENT_REQUESTS'', ''4''),
          (''MAX_INPUT_LENGTH'', ''1512''),
          (''MAX_TOTAL_TOKENS'', ''1000''),
          (''MAX_BATCH_PREFILL_TOKENS'', ''2000''),
          (''MAX_BATCH_TOTAL_TOKENS'', ''4000'')]
   \<and> (1000 :: int) < 1512
   \<and> (\<exists>i t. env_int
         [(''HF_MODEL_ID'', ''aws-neuron/zephyr-7b-seqlen-2048-bs-4-cores-2''),
          (''MAX_CONCURRENT_REQUESTS'', ''4''),
          (''MAX_INPUT_LENGTH'', ''1512''),
          (''MAX_TOTAL_TOKENS'', ''1000''),
          (''MAX_BATCH_PREFILL_TOKENS'', ''2000''),
          (''MAX_BATCH_TOTAL_TOKENS'', ''4000'')] ''MAX_INPUT_LENGTH'' = Some i
        \<and> env_int
         [(''HF_MODEL_ID'', ''aws-neuron/zephyr-7b-seqlen-2048-bs-4-cores-2''),
          (''MAX_CONCURRENT_REQUESTS'', ''4''),
          (''MAX_INPUT_LENGTH'', ''1512''),
          (''MAX_TOTAL_TOKENS'', ''1000''),
          (''MAX_BATCH_PREFILL_TOKENS'', ''2000''),
          (''MAX_BATCH_TOTAL_TOKENS'', ''4000'')] ''MAX_TOTAL_TOKENS'' = Some t
        \<and> \<not> i \<le> t)"
proof -
  have lt: "(1000 :: int) < 1512" by simp
  from input_length_is_1512 [OF config_4_1000] lt config_4_1000
  show ?thesis by blast
qed

text \<open>
  Claim C9: \<^verbatim>\<open>MAX_BATCH_PREFILL_TOKENS\<close> is \<^verbatim>\<open>int(sequence_length*batch_size / 2)\<close>, a
  floating-point division. For positive \<open>b\<close> and \<open>s\<close> with \<open>b * s \<le> 2 ^ 53\<close> it is
  \<open>\<lfloor>b * s / 2\<rfloor>\<close>; past that bound it need not be: for the product \<open>2 ^ 53 + 3\<close> the
  quotient is rounded up to \<open>2 ^ 52 + 2\<close>, while the floor is \<open>2 ^ 52 + 1\<close>.
\<close>

theorem prefill_tokens_float_regime:
  "(0 < b \<longrightarrow> 0 < s \<longrightarrow> b * s \<le> 2 ^ 53 \<longrightarrow> prefill_tokens b s = Inr ((b * s) div 2))
   \<and> prefill_tokens 1 9007199254740995 = Inr 4503599627370498
   \<and> (2::int) ^ 53 < 1 * 9007199254740995
   \<and> (1 * 9007199254740995) div 2 = (4503599627370497 :: int)"
proof (intro conjI impI)
  assume "0 < b" "0 < s" "b * s \<le> 2 ^ 53"
  then show "prefill_tokens b s = Inr ((b * s) div 2)"
    by (simp add: prefill_tokens_exact mult.commute)
next
  show "prefill_tokens 1 9007199254740995 = Inr 4503599627370498"
    by (simp add: eval_simps)
qed simp_all

theorem prefill_tokens_float_regime_witness:
  "(0::int) < 4 \<and> (0::int) < 2048 \<and> (4::int) * 2048 \<le> 2 ^ 53
   \<and> prefill_tokens 4 2048 = Inr 4096"
  using prefill_tokens_float_regime [of 4 2048] by simp

text \<open>
  Claim C10: for positive \<open>b\<close> and \<open>s\<close> in the exact regime (\<open>b * s \<le> 2 ^ 53\<close>), twice
  the prefill budget is at most the batch total, with equality exactly when \<open>b * s\<close> is
  even, and one less than the batch total when it is odd.
\<close>

theorem prefill_at_most_half_total:
  assumes "0 < b" "0 < s" "b * s \<le> 2 ^ 53"
  shows "\<exists>p t. config_int b s ''MAX_BATCH_PREFILL_TOKENS'' = Some p
           \<and> config_int b s ''MAX_BATCH_TOTAL_TOKENS'' = Some t
           \<and> 2 * p \<le> t
           \<and> (2 * p = t \<longleftrightarrow> even (b * s))
           \<and> (odd (b * s) \<longrightarrow> 2 * p = t - 1)"
proof -
  from assms have p: "prefill_tokens b s = Inr ((b * s) div 2)"
    by (simp add: prefill_tokens_exact mult.commute)
  then obtain env where env: "config b s = Inr env"
    by (simp add: config_of_prefill)
  have "config_int b s ''MAX_BATCH_PREFILL_TOKENS'' = Some ((b * s) div 2)"
    using env_int_config(5) [OF env p] env by (simp add: config_int_def)
  moreover have "config_int b s ''MAX_BATCH_TOTAL_TOKENS'' = Some (b * s)"
    using env_int_config(4) [OF env] env by (simp add: config_int_def mult.commute)
  moreover have "2 * ((b * s) div 2) \<le> b * s" by simp
  moreover have "2 * ((b * s) div 2) = b * s \<longleftrightarrow> even (b * s)"
    by (metis dvd_triv_left even_two_times_div_two)
  moreover have "odd (b * s) \<longrightarrow> 2 * ((b * s) div 2) = b * s - 1"
    by (metis add_diff_cancel_right' odd_two_times_div_two_succ)
  ultimately show ?thesis by blast
qed

theorem prefill_at_most_half_total_witness:
  "(0::int) < 3 \<and> (0::int) < 5 \<and> (3::int) * 5 \<le> 2 ^ 53
   \<and> (\<exists>p t. config_int 3 5 ''MAX_BATCH_PREFILL_TOKENS'' = Some p
           \<and> config_int 3 5 ''MAX_BATCH_TOTAL_TOKENS'' = Some t
           \<and> 2 * p \<le> t
           \<and> (2 * p = t \<longleftrightarrow> even ((3::int) * 5))
           \<and> (odd ((3::int) * 5) \<longrightarrow> 2 * p = t - 1))"
  using prefill_at_most_half_total [of 3 5] by simp

end
